theory Spec2Isabelle
  imports Main
begin

section \<open>The HomePage component: data model\<close>

text \<open>
  The component of \<^verbatim>\<open>src/unnamed/part_000\<close> keeps its state in React state
  variables (\<^verbatim>\<open>useState\<close>) and in refs (\<^verbatim>\<open>useRef\<close>), and talks to
  the browser: the camera, the \<^verbatim>\<open>MediaRecorder\<close>, \<^verbatim>\<open>localStorage\<close>, object
  URLs, timers and the face-api loader. Every handler of the component is a function from
  the state to the state; what the browser keeps for the component is part of the same
  record, after the component's own variables.
\<close>

text \<open>A \<^verbatim>\<open>Blob\<close> is the sequence of its bytes.\<close>

type_synonym blob = string

text \<open>
  The value of \<^verbatim>\<open>videoBlobUrl\<close>: an object URL made by
  \<^verbatim>\<open>URL.createObjectURL\<close> (the index of the blob in the registry of object URLs),
  or the data URL that \<^verbatim>\<open>FileReader.readAsDataURL\<close> made of a blob and that
  \<^verbatim>\<open>localStorage\<close> holds.
\<close>

datatype url = ObjectURL nat | DataURL blob

type_synonym track = nat

text \<open>A \<^verbatim>\<open>MediaStream\<close>: the tracks that \<^verbatim>\<open>getTracks()\<close> returns.\<close>

type_synonym media_stream = "track list"

text \<open>
  The closure stored in \<^verbatim>\<open>onloadedmetadata\<close> (lines 49--56): it reads the
  \<^verbatim>\<open>loadingModels\<close> and \<^verbatim>\<open>error\<close> of the render that set the effect up.
\<close>

record metadata_handler =
  capturedLoadingModels :: bool
  capturedError :: "string option"

text \<open>The \<^verbatim>\<open>video\<close> element behind \<^verbatim>\<open>videoRef.current\<close>.\<close>

record video_element =
  srcObject :: "media_stream option"
  onloadedmetadata :: "metadata_handler option"
  paused :: bool
  ended :: bool

datatype recording_state = Inactive | Recording

text \<open>
  The \<^verbatim>\<open>MediaRecorder\<close> behind \<^verbatim>\<open>mediaRecorderRef.current\<close>: the stream it
  was constructed on, its \<^verbatim>\<open>state\<close> attribute, and whether
  \<^verbatim>\<open>ondataavailable\<close> and \<^verbatim>\<open>onstop\<close> are bound to the component's handlers.
\<close>

record media_recorder =
  recorderStream :: media_stream
  recorderState :: recording_state
  handlersBound :: bool

record home_page =
  \<comment> \<open>React state and refs, lines 7--16\<close>
  cameraOn :: bool
  videoRef :: "video_element option"
  canvasRef :: bool
  mediaRecorderRef :: "media_recorder option"
  recordedChunks :: "blob list"
  isRecording :: bool
  videoBlobUrl :: "url option"
  loadingModels :: bool
  error :: "string option"
  \<comment> \<open>the browser\<close>
  localStorage :: "string \<rightharpoonup> url"
  storageQuota :: nat
  objectURLs :: "blob list"
  pendingReads :: "blob list"
  downloads :: "(url \<times> string) list"
  stoppedTracks :: "track set"
  timers :: "nat list"
  nextTimer :: nat
  inFlight :: nat
  overlayDraws :: nat
  modelFetches :: nat
  pendingLoads :: nat
  pendingAcquires :: "metadata_handler list"
  \<comment> \<open>React: the dependencies the effect of lines 42--114 last ran with\<close>
  effectDeps :: "(bool \<times> string option \<times> bool \<times> bool) option"

section \<open>The recording pipeline\<close>

text \<open>
  \<^verbatim>\<open>handleDataAvailable\<close>, lines 117--121: a chunk of positive size is pushed on
  \<^verbatim>\<open>recordedChunks.current\<close>.
\<close>

definition handleDataAvailable :: "blob \<Rightarrow> home_page \<Rightarrow> home_page" where
  "handleDataAvailable data s =
     (if length data > 0 then s\<lparr>recordedChunks := recordedChunks s @ [data]\<rparr> else s)"

text \<open>The encoder emits a sequence of chunks: one \<^verbatim>\<open>dataavailable\<close> event each.\<close>

fun emitChunks :: "blob list \<Rightarrow> home_page \<Rightarrow> home_page" where
  "emitChunks [] s = s"
| "emitChunks (d # ds) s = emitChunks ds (handleDataAvailable d s)"

text \<open>
  \<^verbatim>\<open>new Blob(parts)\<close> concatenates its parts;
  \<^verbatim>\<open>URL.createObjectURL\<close> registers the blob under a fresh URL.
\<close>

definition newBlob :: "blob list \<Rightarrow> blob" where
  "newBlob parts = concat parts"

definition createObjectURL :: "blob \<Rightarrow> home_page \<Rightarrow> url \<times> home_page" where
  "createObjectURL b s = (ObjectURL (length (objectURLs s)), s\<lparr>objectURLs := objectURLs s @ [b]\<rparr>)"

text \<open>The bytes a URL stands for, if it stands for any.\<close>

definition resolveURL :: "home_page \<Rightarrow> url \<Rightarrow> blob option" where
  "resolveURL s u =
     (case u of
        ObjectURL n \<Rightarrow> (if n < length (objectURLs s) then Some (objectURLs s ! n) else None)
      | DataURL b \<Rightarrow> Some b)"

text \<open>The artifact: the bytes behind \<^verbatim>\<open>videoBlobUrl\<close>.\<close>

definition artifact :: "home_page \<Rightarrow> blob option" where
  "artifact s = (case videoBlobUrl s of None \<Rightarrow> None | Some u \<Rightarrow> resolveURL s u)"

text \<open>
  \<^verbatim>\<open>handleStop\<close>, lines 124--145, up to \<^verbatim>\<open>reader.readAsDataURL(superBuffer)\<close>:
  the read is asynchronous, and \<^verbatim>\<open>onloadend\<close> runs later.
\<close>

definition handleStop :: "home_page \<Rightarrow> home_page" where
  "handleStop s =
     (let superBuffer = newBlob (recordedChunks s);
          (u, s1) = createObjectURL superBuffer s
      in s1\<lparr>videoBlobUrl := Some u,
             isRecording := False,
             recordedChunks := [],
             pendingReads := pendingReads s1 @ [superBuffer]\<rparr>)"

text \<open>
  \<^verbatim>\<open>localStorage.setItem\<close> throws when the value does not fit the quota. The
  quota is the browser's: here a number of bytes, against the bytes the URL carries.
\<close>

definition urlLength :: "url \<Rightarrow> nat" where
  "urlLength u = (case u of DataURL b \<Rightarrow> length b | ObjectURL n \<Rightarrow> 0)"

definition setItem :: "string \<Rightarrow> url \<Rightarrow> home_page \<Rightarrow> home_page option" where
  "setItem k v s =
     (if urlLength v > storageQuota s then None
      else Some (s\<lparr>localStorage := (localStorage s)(k \<mapsto> v)\<rparr>))"

text \<open>
  \<^verbatim>\<open>reader.onloadend\<close>, lines 135--143, of the reader that read the blob
  \<open>b\<close>: \<^verbatim>\<open>reader.result\<close> is the data URL of \<open>b\<close>, stored under
  \<^verbatim>\<open>recordedVideo\<close>; when \<^verbatim>\<open>setItem\<close> throws, the error is set.
\<close>

definition readerOnLoadEnd :: "blob \<Rightarrow> home_page \<Rightarrow> home_page" where
  "readerOnLoadEnd b s =
     (case setItem ''recordedVideo'' (DataURL b) s of
        Some s1 \<Rightarrow> s1
      | None \<Rightarrow> s\<lparr>error := Some ''Failed to save video to local storage. It might be too large.''\<rparr>)"

text \<open>
  What \<^verbatim>\<open>new MediaRecorder(stream, {mimeType})\<close> and \<^verbatim>\<open>start()\<close> do is the
  browser's choice: both succeed, the constructor throws (the type is not supported), or
  \<^verbatim>\<open>start()\<close> throws.
\<close>

datatype encoder_outcome = EncoderOk | ConstructorThrows | StartThrows

text \<open>\<^verbatim>\<open>startRecording\<close>, lines 148--171.\<close>

definition startRecording :: "encoder_outcome \<Rightarrow> home_page \<Rightarrow> home_page" where
  "startRecording outcome s =
     (case videoRef s of
        None \<Rightarrow> s\<lparr>error := Some ''No video stream available to record.''\<rparr>
      | Some video \<Rightarrow>
          (case srcObject video of
             None \<Rightarrow> s\<lparr>error := Some ''No video stream available to record.''\<rparr>
           | Some stream \<Rightarrow>
               (let s1 = s\<lparr>recordedChunks := [], videoBlobUrl := None\<rparr>;
                    failed = Some ''Failed to start recording. Your browser might not support MediaRecorder API or the selected mimeType.''
                in case outcome of
                     ConstructorThrows \<Rightarrow> s1\<lparr>error := failed\<rparr>
                   | StartThrows \<Rightarrow>
                       s1\<lparr>mediaRecorderRef :=
                            Some \<lparr>recorderStream = stream, recorderState = Inactive, handlersBound = True\<rparr>,
                          error := failed\<rparr>
                   | EncoderOk \<Rightarrow>
                       s1\<lparr>mediaRecorderRef :=
                            Some \<lparr>recorderStream = stream, recorderState = Recording, handlersBound = True\<rparr>,
                          isRecording := True\<rparr>)))"

text \<open>
  \<^verbatim>\<open>stopRecording\<close>, lines 174--179. \<^verbatim>\<open>stop()\<close> makes the recorder inactive;
  its \<^verbatim>\<open>stop\<close> event, and so \<^verbatim>\<open>handleStop\<close>, comes later.
\<close>

definition recorderStop :: "media_recorder \<Rightarrow> media_recorder" where
  "recorderStop r = r\<lparr>recorderState := Inactive\<rparr>"

definition stopRecording :: "home_page \<Rightarrow> home_page" where
  "stopRecording s =
     (case mediaRecorderRef s of
        None \<Rightarrow> s
      | Some r \<Rightarrow>
          (if isRecording s then s\<lparr>mediaRecorderRef := Some (recorderStop r)\<rparr> else s))"

text \<open>
  The name of the download, line 186: the template
  \<^verbatim>\<open>face-tracking-video-${Date.now()}.webm\<close>, with the milliseconds in decimal.
\<close>

definition digit :: "nat \<Rightarrow> char" where
  "digit d = ''0123456789'' ! d"

fun decimal :: "nat \<Rightarrow> string" where
  "decimal n = (if n < 10 then [digit n] else decimal (n div 10) @ [digit (n mod 10)])"

declare decimal.simps [simp del]

definition downloadName :: "nat \<Rightarrow> string" where
  "downloadName now = ''face-tracking-video-'' @ decimal now @ ''.webm''"

text \<open>
  \<^verbatim>\<open>downloadVideo\<close>, lines 182--194: the click on the anchor is the download, of
  the URL under the name.
\<close>

definition downloadVideo :: "nat \<Rightarrow> home_page \<Rightarrow> home_page" where
  "downloadVideo now s =
     (case videoBlobUrl s of
        Some u \<Rightarrow> s\<lparr>downloads := downloads s @ [(u, downloadName now)]\<rparr>
      | None \<Rightarrow> s\<lparr>error := Some ''No video recorded to download.''\<rparr>)"

text \<open>The \<^verbatim>\<open>disabled\<close> attributes of the buttons, lines 246, 254 and 262.\<close>

definition startDisabled :: "home_page \<Rightarrow> bool" where
  "startDisabled s = (isRecording s \<or> loadingModels s \<or> error s \<noteq> None \<or> \<not> cameraOn s)"

definition stopDisabled :: "home_page \<Rightarrow> bool" where
  "stopDisabled s = (\<not> isRecording s)"

definition downloadDisabled :: "home_page \<Rightarrow> bool" where
  "downloadDisabled s = (videoBlobUrl s = None \<or> isRecording s)"

text \<open>A click on a disabled button runs no handler.\<close>

definition clickDownload :: "nat \<Rightarrow> home_page \<Rightarrow> home_page" where
  "clickDownload now s = (if downloadDisabled s then s else downloadVideo now s)"

text \<open>No capture source: the guard of line 149.\<close>

definition noStream :: "home_page \<Rightarrow> bool" where
  "noStream s = (case videoRef s of None \<Rightarrow> True | Some video \<Rightarrow> srcObject video = None)"

section \<open>The capability loader\<close>

text \<open>
  \<^verbatim>\<open>loadModels\<close>, lines 19--39, up to the \<^verbatim>\<open>await\<close>: the flag is set and
  the four \<^verbatim>\<open>loadFromUri\<close> calls are made, each a fetch of one net's files.
\<close>

definition loadModels :: "home_page \<Rightarrow> home_page" where
  "loadModels s =
     s\<lparr>loadingModels := True,
       modelFetches := modelFetches s + 4,
       pendingLoads := pendingLoads s + 1\<rparr>"

text \<open>After the \<^verbatim>\<open>await\<close>: lines 31--33 when all four loaded, lines 35--37 when one failed.\<close>

definition loadModelsResolved :: "home_page \<Rightarrow> home_page" where
  "loadModelsResolved s = s\<lparr>loadingModels := False, error := None\<rparr>"

definition loadModelsRejected :: "home_page \<Rightarrow> home_page" where
  "loadModelsRejected s =
     s\<lparr>error := Some ''Failed to load face tracking models. Please check your network and model paths. Ensure models are in public/models.'',
       loadingModels := False\<rparr>"

section \<open>The detection loop\<close>

text \<open>\<^verbatim>\<open>clearInterval\<close> and \<^verbatim>\<open>setInterval\<close>: the browser's table of running timers.\<close>

definition clearInterval :: "nat \<Rightarrow> home_page \<Rightarrow> home_page" where
  "clearInterval h s = s\<lparr>timers := removeAll h (timers s)\<rparr>"

definition setInterval :: "home_page \<Rightarrow> nat \<times> home_page" where
  "setInterval s = (nextTimer s, s\<lparr>timers := timers s @ [nextTimer s], nextTimer := nextTimer s + 1\<rparr>)"

text \<open>
  \<^verbatim>\<open>startFaceDetection\<close>, lines 63--89. \<^verbatim>\<open>detectionInterval\<close> is a local
  variable, \<^verbatim>\<open>null\<close> when it is tested on line 73.
\<close>

definition startFaceDetection :: "home_page \<Rightarrow> home_page" where
  "startFaceDetection s =
     (case videoRef s of
        None \<Rightarrow> s
      | Some video \<Rightarrow>
          (if \<not> canvasRef s then s
           else
             (let detectionInterval = (None :: nat option);
                  s1 = (case detectionInterval of Some h \<Rightarrow> clearInterval h s | None \<Rightarrow> s);
                  (h, s2) = setInterval s1
              in s2)))"

text \<open>
  The interval's callback, lines 75--88, up to the \<^verbatim>\<open>await\<close>: \<open>video\<close> is the
  element the callback closed over, as it is when the timer fires. A detection is
  submitted when the video is neither paused nor ended.
\<close>

definition intervalCallback :: "video_element \<Rightarrow> home_page \<Rightarrow> home_page" where
  "intervalCallback video s =
     (if \<not> paused video \<and> \<not> ended video then s\<lparr>inFlight := inFlight s + 1\<rparr> else s)"

text \<open>
  After the \<^verbatim>\<open>await\<close>, lines 78--86: the submission is over; the overlay is
  cleared and drawn when the canvas gives a context.
\<close>

definition detectionResolved :: "bool \<Rightarrow> home_page \<Rightarrow> home_page" where
  "detectionResolved hasContext s =
     (let s1 = s\<lparr>inFlight := inFlight s - 1\<rparr>
      in if hasContext then s1\<lparr>overlayDraws := overlayDraws s1 + 1\<rparr> else s1)"

section \<open>The capture source and the effect\<close>

text \<open>\<^verbatim>\<open>stream.getTracks().forEach(track => track.stop())\<close>.\<close>

definition stopTracks :: "media_stream \<Rightarrow> home_page \<Rightarrow> home_page" where
  "stopTracks stream s = s\<lparr>stoppedTracks := fold insert stream (stoppedTracks s)\<rparr>"

text \<open>
  \<^verbatim>\<open>startVideo\<close>, lines 43--61, up to the \<^verbatim>\<open>await\<close>: the camera is asked for;
  \<open>h\<close> holds the \<^verbatim>\<open>loadingModels\<close> and \<^verbatim>\<open>error\<close> that the closures of this
  run of the effect read.
\<close>

definition startVideo :: "metadata_handler \<Rightarrow> home_page \<Rightarrow> home_page" where
  "startVideo h s =
     (if videoRef s = None \<or> \<not> canvasRef s then s
      else s\<lparr>pendingAcquires := pendingAcquires s @ [h]\<rparr>)"

text \<open>
  After the \<^verbatim>\<open>await\<close>, lines 48--56 when the camera was granted: with no video
  element the assignment throws inside the \<^verbatim>\<open>try\<close>, and the \<^verbatim>\<open>catch\<close> of
  lines 57--60 runs, as it does when the camera was denied.
\<close>

definition getUserMediaRejected :: "home_page \<Rightarrow> home_page" where
  "getUserMediaRejected s =
     s\<lparr>error := Some ''Failed to access camera. Please ensure you have a webcam and grant permissions.''\<rparr>"

definition getUserMediaResolved :: "media_stream \<Rightarrow> metadata_handler \<Rightarrow> home_page \<Rightarrow> home_page" where
  "getUserMediaResolved stream h s =
     (case videoRef s of
        None \<Rightarrow> getUserMediaRejected s
      | Some video \<Rightarrow>
          s\<lparr>videoRef := Some (video\<lparr>srcObject := Some stream, onloadedmetadata := Some h\<rparr>)\<rparr>)"

text \<open>The \<^verbatim>\<open>onloadedmetadata\<close> closure, lines 49--56.\<close>

definition onLoadedMetadata :: "metadata_handler \<Rightarrow> home_page \<Rightarrow> home_page" where
  "onLoadedMetadata h s =
     (let s1 = (case videoRef s of
                  None \<Rightarrow> s
                | Some video \<Rightarrow> s\<lparr>videoRef := Some (video\<lparr>paused := False\<rparr>)\<rparr>)
      in if \<not> capturedLoadingModels h \<and> capturedError h = None then startFaceDetection s1 else s1)"

text \<open>The camera-off branch of the effect, lines 94--98.\<close>

definition cameraOffBranch :: "home_page \<Rightarrow> home_page" where
  "cameraOffBranch s =
     (case videoRef s of
        None \<Rightarrow> s
      | Some video \<Rightarrow>
          (case srcObject video of
             None \<Rightarrow> s
           | Some stream \<Rightarrow>
               (if \<not> cameraOn s
                then (stopTracks stream s)\<lparr>videoRef := Some (video\<lparr>srcObject := None\<rparr>)\<rparr>
                else s)))"

text \<open>The release of the stream in the effect's cleanup, lines 101--106.\<close>

definition cleanupRelease :: "home_page \<Rightarrow> home_page" where
  "cleanupRelease s =
     (case videoRef s of
        None \<Rightarrow> s
      | Some video \<Rightarrow>
          (case srcObject video of
             None \<Rightarrow> s
           | Some stream \<Rightarrow> (stopTracks stream s)\<lparr>videoRef := Some (video\<lparr>srcObject := None\<rparr>)\<rparr>))"

text \<open>
  The whole cleanup, lines 100--113; \<open>wasRecording\<close> is the \<^verbatim>\<open>isRecording\<close> of
  the render that set the effect up.
\<close>

definition effectCleanup :: "bool \<Rightarrow> home_page \<Rightarrow> home_page" where
  "effectCleanup wasRecording s =
     (let s1 = cleanupRelease s;
          s2 = (case mediaRecorderRef s1 of
                  None \<Rightarrow> s1
                | Some r \<Rightarrow>
                    (if wasRecording then s1\<lparr>mediaRecorderRef := Some (recorderStop r)\<rparr> else s1))
      in case videoRef s2 of
           None \<Rightarrow> s2
         | Some video \<Rightarrow>
             (case onloadedmetadata video of
                None \<Rightarrow> s2
              | Some h \<Rightarrow> s2\<lparr>videoRef := Some (video\<lparr>onloadedmetadata := None\<rparr>)\<rparr>))"

text \<open>
  The body of the effect, lines 91--98. The conditions read the state of the render;
  \<^verbatim>\<open>loadModels()\<close> has been called before them.
\<close>

definition effectBody :: "home_page \<Rightarrow> home_page" where
  "effectBody s =
     (let s1 = loadModels s
      in if \<not> loadingModels s \<and> error s = None \<and> cameraOn s
         then startVideo \<lparr>capturedLoadingModels = loadingModels s, capturedError = error s\<rparr> s1
         else cameraOffBranch s1)"

text \<open>The second effect, lines 197--203, run once after the first render.\<close>

definition restoreEffect :: "home_page \<Rightarrow> home_page" where
  "restoreEffect s =
     (case localStorage s ''recordedVideo'' of
        Some savedVideo \<Rightarrow> s\<lparr>videoBlobUrl := Some savedVideo\<rparr>
      | None \<Rightarrow> s)"

section \<open>Renders, effects and events\<close>

text \<open>The dependency array of line 114; \<^verbatim>\<open>loadModels\<close> is the same in every render.\<close>

definition deps :: "home_page \<Rightarrow> bool \<times> string option \<times> bool \<times> bool" where
  "deps s = (loadingModels s, error s, isRecording s, cameraOn s)"

text \<open>
  The JSX of lines 221--240: the video and the canvas are in the page exactly when
  \<^verbatim>\<open>cameraOn\<close>. An element that enters the page is a new one; the ref of an
  element that leaves it is null once the page is updated, which is before the effects
  of the render and their cleanups run.
\<close>

definition freshVideo :: video_element where
  "freshVideo = \<lparr>srcObject = None, onloadedmetadata = None, paused = True, ended = False\<rparr>"

definition render :: "home_page \<Rightarrow> home_page" where
  "render s =
     (if cameraOn s
      then s\<lparr>videoRef := Some (case videoRef s of None \<Rightarrow> freshVideo | Some video \<Rightarrow> video),
             canvasRef := True\<rparr>
      else s\<lparr>videoRef := None, canvasRef := False\<rparr>)"

text \<open>
  One render and its effects: \<^verbatim>\<open>useEffect\<close> runs the body after the first render,
  and after a later one when a dependency has changed, the cleanup of the previous run
  first. The state changes one handler makes are rendered together.
\<close>

definition commit :: "home_page \<Rightarrow> home_page" where
  "commit s =
     (let s1 = render s
      in case effectDeps s1 of
           None \<Rightarrow> (effectBody s1)\<lparr>effectDeps := Some (deps s1)\<rparr>
         | Some (lm, err, wasRecording, cam) \<Rightarrow>
             (if (lm, err, wasRecording, cam) = deps s1 then s1
              else (effectBody (effectCleanup wasRecording s1))\<lparr>effectDeps := Some (deps s1)\<rparr>))"

text \<open>
  The body sets \<^verbatim>\<open>loadingModels\<close>, which is a dependency: a second render may
  follow the first, and no third one does.
\<close>

definition settle :: "home_page \<Rightarrow> home_page" where
  "settle s = commit (commit s)"

text \<open>The component before its first render: the initial values of lines 7--16.\<close>

definition initialPage :: "(string \<rightharpoonup> url) \<Rightarrow> nat \<Rightarrow> home_page" where
  "initialPage storage quota =
     \<lparr>cameraOn = True,
      videoRef = None,
      canvasRef = False,
      mediaRecorderRef = None,
      recordedChunks = [],
      isRecording = False,
      videoBlobUrl = None,
      loadingModels = True,
      error = None,
      localStorage = storage,
      storageQuota = quota,
      objectURLs = [],
      pendingReads = [],
      downloads = [],
      stoppedTracks = {},
      timers = [],
      nextTimer = 0,
      inFlight = 0,
      overlayDraws = 0,
      modelFetches = 0,
      pendingLoads = 0,
      pendingAcquires = [],
      effectDeps = None\<rparr>"

definition mount :: "(string \<rightharpoonup> url) \<Rightarrow> nat \<Rightarrow> home_page" where
  "mount storage quota = settle (restoreEffect (commit (initialPage storage quota)))"

text \<open>
  What can happen to the mounted component: a promise of the component settles, the
  browser fires an event, or the user clicks a button.
\<close>

datatype event =
    ModelsResolved
  | ModelsRejected
  | CameraGranted media_stream
  | CameraDenied
  | LoadedMetadata
  | TimerFired nat video_element
  | DetectionResolved bool
  | DataAvailable blob
  | RecorderStopped
  | ReaderLoadEnd
  | ClickStart encoder_outcome
  | ClickStop
  | ClickDownload nat
  | ClickToggleCamera

text \<open>The handler an event runs; an event nothing waits for runs none.\<close>

fun handle :: "event \<Rightarrow> home_page \<Rightarrow> home_page" where
  "handle ModelsResolved s =
     (if pendingLoads s > 0 then loadModelsResolved (s\<lparr>pendingLoads := pendingLoads s - 1\<rparr>) else s)"
| "handle ModelsRejected s =
     (if pendingLoads s > 0 then loadModelsRejected (s\<lparr>pendingLoads := pendingLoads s - 1\<rparr>) else s)"
| "handle (CameraGranted stream) s =
     (case pendingAcquires s of
        [] \<Rightarrow> s
      | h # rest \<Rightarrow> getUserMediaResolved stream h (s\<lparr>pendingAcquires := rest\<rparr>))"
| "handle CameraDenied s =
     (case pendingAcquires s of
        [] \<Rightarrow> s
      | h # rest \<Rightarrow> getUserMediaRejected (s\<lparr>pendingAcquires := rest\<rparr>))"
| "handle LoadedMetadata s =
     (case videoRef s of
        None \<Rightarrow> s
      | Some video \<Rightarrow>
          (case (srcObject video, onloadedmetadata video) of
             (Some stream, Some h) \<Rightarrow> onLoadedMetadata h s
           | _ \<Rightarrow> s))"
| "handle (TimerFired h video) s = (if h \<in> set (timers s) then intervalCallback video s else s)"
| "handle (DetectionResolved hasContext) s =
     (if inFlight s > 0 then detectionResolved hasContext s else s)"
| "handle (DataAvailable data) s =
     (case mediaRecorderRef s of None \<Rightarrow> s | Some r \<Rightarrow> handleDataAvailable data s)"
| "handle RecorderStopped s =
     (case mediaRecorderRef s of None \<Rightarrow> s | Some r \<Rightarrow> handleStop s)"
| "handle ReaderLoadEnd s =
     (case pendingReads s of
        [] \<Rightarrow> s
      | b # rest \<Rightarrow> readerOnLoadEnd b (s\<lparr>pendingReads := rest\<rparr>))"
| "handle (ClickStart outcome) s = (if startDisabled s then s else startRecording outcome s)"
| "handle ClickStop s = (if stopDisabled s then s else stopRecording s)"
| "handle (ClickDownload now) s = clickDownload now s"
| "handle ClickToggleCamera s = s\<lparr>cameraOn := \<not> cameraOn s\<rparr>"

text \<open>
  Events are taken one at a time, each followed by the renders its state changes cause:
  the handler of the next event then reads the state of the last render, which is the
  current one.
\<close>

definition step :: "event \<Rightarrow> home_page \<Rightarrow> home_page" where
  "step e s = settle (handle e s)"

fun run :: "event list \<Rightarrow> home_page \<Rightarrow> home_page" where
  "run [] s = s"
| "run (e # es) s = run es (step e s)"

text \<open>A video element that plays the stream of tracks 0 and 1.\<close>

definition playingVideo :: video_element where
  "playingVideo =
     \<lparr>srcObject = Some [0, 1],
      onloadedmetadata = Some \<lparr>capturedLoadingModels = False, capturedError = None\<rparr>,
      paused = False,
      ended = False\<rparr>"

text \<open>
  A page for examples: the camera is on and streams tracks 0 and 1, the detection loop
  runs on timer 0, nothing is recorded, and a load of the models has just completed: the
  page has been rendered with \<^verbatim>\<open>loadingModels\<close> false, and the effect of that
  render has not run yet.
\<close>

definition streamingPage :: home_page where
  "streamingPage =
     \<lparr>cameraOn = True,
      videoRef = Some playingVideo,
      canvasRef = True,
      mediaRecorderRef = None,
      recordedChunks = [],
      isRecording = False,
      videoBlobUrl = None,
      loadingModels = False,
      error = None,
      localStorage = Map.empty,
      storageQuota = 4,
      objectURLs = [],
      pendingReads = [],
      downloads = [],
      stoppedTracks = {},
      timers = [0],
      nextTimer = 1,
      inFlight = 0,
      overlayDraws = 0,
      modelFetches = 12,
      pendingLoads = 1,
      pendingAcquires = [],
      effectDeps = Some (True, None, False, True)\<rparr>"

text \<open>The same page after a recording of three chunks has been finalized.\<close>

definition recordedPage :: home_page where
  "recordedPage = handleStop (emitChunks [''a'', ''b'', ''c''] (startRecording EncoderOk streamingPage))"

text \<open>The page in a recording whose chunks, ten bytes, exceed the quota of four.\<close>

definition fullPage :: home_page where
  "fullPage = emitChunks [''hello'', ''world''] (startRecording EncoderOk streamingPage)"

section \<open>Chunks and the artifact\<close>

lemma emitChunks_chunks:
  "recordedChunks (emitChunks ds s) = recordedChunks s @ filter (\<lambda>d. d \<noteq> []) ds"
  by (induction ds arbitrary: s) (simp_all add: handleDataAvailable_def)

lemma concat_nonempty: "concat (filter (\<lambda>d. d \<noteq> []) ds) = concat ds"
  by (induction ds) simp_all

lemma artifact_handleStop: "artifact (handleStop s) = Some (concat (recordedChunks s))"
  by (simp add: handleStop_def createObjectURL_def artifact_def resolveURL_def newBlob_def Let_def)

lemma stopRecording_chunks: "recordedChunks (stopRecording s) = recordedChunks s"
  by (simp add: stopRecording_def split: option.splits)

lemma startRecording_ok_chunks:
  "videoRef s = Some video \<Longrightarrow> srcObject video = Some stream \<Longrightarrow>
   recordedChunks (startRecording EncoderOk s) = []"
  by (simp add: startRecording_def)

text \<open>
  C3. In a recording session (a start that succeeds, the chunks the encoder emits before
  the stop, the stop, the chunks it emits after it, the encoder's stop event), the chunk
  sequence holds the non-empty chunks in the order of emission, the empty ones are
  dropped, and the artifact's bytes are the concatenation of the chunks in that order.
\<close>

theorem C3_artifact_is_concatenation:
  assumes "videoRef s = Some video" and "srcObject video = Some stream"
  shows "recordedChunks (emitChunks ds (startRecording EncoderOk s)) = filter (\<lambda>d. d \<noteq> []) ds
       \<and> recordedChunks (emitChunks ds' (stopRecording (emitChunks ds (startRecording EncoderOk s))))
           = filter (\<lambda>d. d \<noteq> []) (ds @ ds')
       \<and> artifact (handleStop
             (emitChunks ds' (stopRecording (emitChunks ds (startRecording EncoderOk s)))))
           = Some (concat (filter (\<lambda>d. d \<noteq> []) (ds @ ds')))
       \<and> concat (filter (\<lambda>d. d \<noteq> []) (ds @ ds')) = concat ds @ concat ds'"
  using assms
  by (simp add: artifact_handleStop stopRecording_chunks emitChunks_chunks
      startRecording_ok_chunks concat_nonempty)

theorem C3_witness:
  "recordedChunks (emitChunks [''a'', '''', ''b'', ''c''] (startRecording EncoderOk streamingPage))
     = [''a'', ''b'', ''c'']
   \<and> artifact (handleStop (emitChunks [] (stopRecording
       (emitChunks [''a'', '''', ''b'', ''c''] (startRecording EncoderOk streamingPage)))))
     = Some ''abc''
   \<and> artifact (handleStop (emitChunks [''c''] (stopRecording
       (emitChunks [''a'', ''b''] (startRecording EncoderOk streamingPage)))))
     = Some ''abc''"
proof -
  have v: "videoRef streamingPage = Some playingVideo" by (simp add: streamingPage_def)
  have src: "srcObject playingVideo = Some [0, 1]" by (simp add: playingVideo_def)
  from C3_artifact_is_concatenation [OF v src, of "[''a'', '''', ''b'', ''c'']" "[]"]
    C3_artifact_is_concatenation [OF v src, of "[''a'', ''b'']" "[''c'']"]
  show ?thesis by simp
qed

section \<open>Starting and stopping a recording\<close>

lemma noStream_released: "noStream (cleanupRelease streamingPage)"
  by (simp add: noStream_def cleanupRelease_def streamingPage_def playingVideo_def stopTracks_def)

lemma released_idle: "\<not> isRecording (cleanupRelease streamingPage)"
  by (simp add: cleanupRelease_def streamingPage_def playingVideo_def stopTracks_def)

text \<open>
  C5. With no capture source (no video element, or one with no stream attached),
  \<^verbatim>\<open>startRecording\<close> sets the error and changes nothing else: the recording flag,
  the chunks, the encoder and the artifact reference are as before.
\<close>

theorem C5_start_without_source:
  assumes "noStream s"
  shows "startRecording outcome s = s\<lparr>error := Some ''No video stream available to record.''\<rparr>
       \<and> isRecording (startRecording outcome s) = isRecording s
       \<and> recordedChunks (startRecording outcome s) = recordedChunks s
       \<and> mediaRecorderRef (startRecording outcome s) = mediaRecorderRef s
       \<and> videoBlobUrl (startRecording outcome s) = videoBlobUrl s"
  using assms by (auto simp: noStream_def startRecording_def split: option.splits)

theorem C5_witness:
  "noStream (cleanupRelease streamingPage)
   \<and> error (startRecording EncoderOk (cleanupRelease streamingPage))
       = Some ''No video stream available to record.''
   \<and> \<not> isRecording (startRecording EncoderOk (cleanupRelease streamingPage))"
  using C5_start_without_source [OF noStream_released, of EncoderOk] noStream_released released_idle
  by simp

lemma recordedPage_url: "videoBlobUrl recordedPage = Some (ObjectURL 0)"
  by (simp add: recordedPage_def handleStop_def createObjectURL_def Let_def
      handleDataAvailable_def startRecording_def streamingPage_def playingVideo_def)

lemma recordedPage_idle: "\<not> isRecording recordedPage"
  by (simp add: recordedPage_def handleStop_def createObjectURL_def Let_def)

lemma recordedPage_downloads: "downloads recordedPage = []"
  by (simp add: recordedPage_def handleStop_def createObjectURL_def Let_def
      handleDataAvailable_def startRecording_def streamingPage_def playingVideo_def)

lemma recordedPage_recorder: "mediaRecorderRef recordedPage \<noteq> None"
  by (simp add: recordedPage_def handleStop_def createObjectURL_def Let_def
      handleDataAvailable_def startRecording_def streamingPage_def playingVideo_def)

text \<open>
  C10. \<^verbatim>\<open>stopRecording\<close> outside a recording does nothing: the state after it is
  the state before it, encoder, flags, chunks and error included.
\<close>

theorem C10_stop_when_not_recording:
  assumes "\<not> isRecording s"
  shows "stopRecording s = s"
  using assms by (simp add: stopRecording_def split: option.splits)

theorem C10_witness:
  "mediaRecorderRef recordedPage \<noteq> None \<and> \<not> isRecording recordedPage
   \<and> stopRecording recordedPage = recordedPage"
  using C10_stop_when_not_recording [OF recordedPage_idle] recordedPage_idle recordedPage_recorder
  by simp

section \<open>The download\<close>

lemma decimal_small: "n < 10 \<Longrightarrow> decimal n = [digit n]"
  by (subst decimal.simps) simp

lemma decimal_large: "\<not> n < 10 \<Longrightarrow> decimal n = decimal (n div 10) @ [digit (n mod 10)]"
  by (subst decimal.simps) simp

lemma decimal_nonempty: "decimal n \<noteq> []"
  by (cases "n < 10") (simp_all add: decimal_small decimal_large)

lemma digit_inj:
  assumes "a < 10" and "b < 10" and "digit a = digit b"
  shows "a = b"
proof -
  have "distinct ''0123456789''" by simp
  moreover have "a < length ''0123456789''" and "b < length ''0123456789''"
    using assms(1,2) by simp_all
  ultimately show ?thesis
    using assms(3) unfolding digit_def by (simp only: nth_eq_iff_index_eq)
qed

text \<open>Two timestamps with the same decimal digits are the same.\<close>

lemma decimal_inj: "decimal n = decimal m \<Longrightarrow> n = m"
proof (induction n arbitrary: m rule: decimal.induct)
  case (1 n)
  show ?case
  proof (cases "n < 10")
    case True
    note n = this
    show ?thesis
    proof (cases "m < 10")
      case True
      with n "1.prems" show ?thesis
        by (simp add: decimal_small digit_inj)
    next
      case False
      with n "1.prems" decimal_nonempty [of "m div 10"] show ?thesis
        by (simp add: decimal_small decimal_large)
    qed
  next
    case False
    note n = this
    show ?thesis
    proof (cases "m < 10")
      case True
      with n "1.prems" decimal_nonempty [of "n div 10"] show ?thesis
        by (simp add: decimal_small decimal_large)
    next
      case False
      with n "1.prems" have eq: "decimal (n div 10) = decimal (m div 10)"
        and dg: "digit (n mod 10) = digit (m mod 10)"
        by (simp_all add: decimal_large)
      from "1.IH" [OF n eq] have "n div 10 = m div 10" .
      moreover from dg have "n mod 10 = m mod 10"
        by (rule digit_inj [rotated 2]) simp_all
      ultimately show ?thesis by (metis div_mult_mod_eq)
    qed
  qed
qed

text \<open>
  C7. The Download button is disabled exactly when there is no artifact reference or a
  recording is running, so a click downloads only with an artifact and outside a
  recording. \<^verbatim>\<open>downloadVideo\<close> with no artifact sets the error and downloads
  nothing; a permitted click downloads the artifact's URL under the name
  \<^verbatim>\<open>face-tracking-video-\<close>, the milliseconds, \<^verbatim>\<open>.webm\<close>, a name that differs
  for different timestamps.
\<close>

theorem C7_download:
  "(downloadDisabled s \<longleftrightarrow> videoBlobUrl s = None \<or> isRecording s)
   \<and> (clickDownload now s \<noteq> s \<longrightarrow> videoBlobUrl s \<noteq> None \<and> \<not> isRecording s)
   \<and> (videoBlobUrl s = None \<longrightarrow>
        downloadVideo now s = s\<lparr>error := Some ''No video recorded to download.''\<rparr>)
   \<and> (\<forall>u. videoBlobUrl s = Some u \<and> \<not> isRecording s \<longrightarrow>
        clickDownload now s =
          s\<lparr>downloads := downloads s @ [(u, ''face-tracking-video-'' @ decimal now @ ''.webm'')]\<rparr>)
   \<and> (\<forall>now'. downloadName now = downloadName now' \<longrightarrow> now = now')"
  by (auto simp: downloadDisabled_def clickDownload_def downloadVideo_def downloadName_def
      dest: decimal_inj)

theorem C7_witness:
  "videoBlobUrl recordedPage = Some (ObjectURL 0) \<and> \<not> isRecording recordedPage
   \<and> \<not> downloadDisabled recordedPage
   \<and> downloads (clickDownload 1700000000123 recordedPage)
       = [(ObjectURL 0, ''face-tracking-video-1700000000123.webm'')]
   \<and> videoBlobUrl streamingPage = None
   \<and> error (downloadVideo 1700000000123 streamingPage) = Some ''No video recorded to download.''"
proof -
  have none: "videoBlobUrl streamingPage = None" by (simp add: streamingPage_def)
  note c = C7_download [of recordedPage 1700000000123]
  note d = C7_download [of streamingPage 1700000000123]
  from c recordedPage_url recordedPage_idle have "\<not> downloadDisabled recordedPage" by simp
  moreover from c recordedPage_url recordedPage_idle
  have "clickDownload 1700000000123 recordedPage =
      recordedPage\<lparr>downloads := downloads recordedPage @
        [(ObjectURL 0, ''face-tracking-video-'' @ decimal 1700000000123 @ ''.webm'')]\<rparr>"
    by blast
  then have "downloads (clickDownload 1700000000123 recordedPage)
       = [(ObjectURL 0, ''face-tracking-video-1700000000123.webm'')]"
    by (simp add: recordedPage_downloads decimal_small decimal_large digit_def)
  moreover from d none
  have "downloadVideo 1700000000123 streamingPage
      = streamingPage\<lparr>error := Some ''No video recorded to download.''\<rparr>" by blast
  then have "error (downloadVideo 1700000000123 streamingPage) = Some ''No video recorded to download.''"
    by simp
  ultimately show ?thesis using recordedPage_url recordedPage_idle none by blast
qed

section \<open>A storage failure at finalize\<close>

lemma fullPage_chunks: "recordedChunks fullPage = [''hello'', ''world'']"
  by (simp add: fullPage_def handleDataAvailable_def startRecording_def streamingPage_def playingVideo_def)

lemma fullPage_quota: "storageQuota fullPage = 4"
  by (simp add: fullPage_def handleDataAvailable_def startRecording_def streamingPage_def playingVideo_def)

lemma fullPage_fresh: "objectURLs fullPage = [] \<and> downloads fullPage = []"
  by (simp add: fullPage_def handleDataAvailable_def startRecording_def streamingPage_def playingVideo_def)

text \<open>
  C6. When the blob of a finalize does not fit the storage quota, the object URL that
  \<^verbatim>\<open>handleStop\<close> set stays in \<^verbatim>\<open>videoBlobUrl\<close> and still stands for the
  concatenated chunks, the error tells of the storage failure, the storage is as before,
  and the Download button is enabled and downloads that URL.
\<close>

theorem C6_storage_failure_not_fatal:
  assumes "storageQuota s < length (newBlob (recordedChunks s))"
  shows "last (pendingReads (handleStop s)) = newBlob (recordedChunks s)
       \<and> videoBlobUrl (readerOnLoadEnd (newBlob (recordedChunks s)) (handleStop s))
           = videoBlobUrl (handleStop s)
       \<and> videoBlobUrl (handleStop s) = Some (ObjectURL (length (objectURLs s)))
       \<and> artifact (readerOnLoadEnd (newBlob (recordedChunks s)) (handleStop s))
           = Some (concat (recordedChunks s))
       \<and> error (readerOnLoadEnd (newBlob (recordedChunks s)) (handleStop s))
           = Some ''Failed to save video to local storage. It might be too large.''
       \<and> localStorage (readerOnLoadEnd (newBlob (recordedChunks s)) (handleStop s)) = localStorage s
       \<and> \<not> downloadDisabled (readerOnLoadEnd (newBlob (recordedChunks s)) (handleStop s))
       \<and> clickDownload now (readerOnLoadEnd (newBlob (recordedChunks s)) (handleStop s))
           = (readerOnLoadEnd (newBlob (recordedChunks s)) (handleStop s))
               \<lparr>downloads := downloads s @ [(ObjectURL (length (objectURLs s)), downloadName now)]\<rparr>"
  using assms
  by (simp add: handleStop_def createObjectURL_def readerOnLoadEnd_def setItem_def urlLength_def
      artifact_def resolveURL_def newBlob_def downloadDisabled_def clickDownload_def
      downloadVideo_def Let_def)

theorem C6_witness:
  "storageQuota fullPage < length (newBlob (recordedChunks fullPage))
   \<and> videoBlobUrl (readerOnLoadEnd ''helloworld'' (handleStop fullPage)) = Some (ObjectURL 0)
   \<and> artifact (readerOnLoadEnd ''helloworld'' (handleStop fullPage)) = Some ''helloworld''
   \<and> error (readerOnLoadEnd ''helloworld'' (handleStop fullPage))
       = Some ''Failed to save video to local storage. It might be too large.''
   \<and> downloads (clickDownload 7 (readerOnLoadEnd ''helloworld'' (handleStop fullPage)))
       = [(ObjectURL 0, ''face-tracking-video-7.webm'')]"
proof -
  have q: "storageQuota fullPage < length (newBlob (recordedChunks fullPage))"
    by (simp add: fullPage_chunks fullPage_quota newBlob_def)
  from C6_storage_failure_not_fatal [OF q, of 7] q show ?thesis
    by (simp add: newBlob_def fullPage_chunks fullPage_fresh downloadName_def decimal_small
        digit_def)
qed

section \<open>What renders and effects leave alone\<close>

lemma frame_render:
  "loadingModels (render s) = loadingModels s \<and> error (render s) = error s
   \<and> isRecording (render s) = isRecording s \<and> cameraOn (render s) = cameraOn s
   \<and> modelFetches (render s) = modelFetches s \<and> pendingLoads (render s) = pendingLoads s
   \<and> effectDeps (render s) = effectDeps s \<and> timers (render s) = timers s
   \<and> videoBlobUrl (render s) = videoBlobUrl s"
  by (simp add: render_def)

lemma frame_effectCleanup:
  "loadingModels (effectCleanup w s) = loadingModels s \<and> error (effectCleanup w s) = error s
   \<and> isRecording (effectCleanup w s) = isRecording s \<and> cameraOn (effectCleanup w s) = cameraOn s
   \<and> modelFetches (effectCleanup w s) = modelFetches s
   \<and> pendingLoads (effectCleanup w s) = pendingLoads s
   \<and> effectDeps (effectCleanup w s) = effectDeps s \<and> timers (effectCleanup w s) = timers s
   \<and> videoBlobUrl (effectCleanup w s) = videoBlobUrl s"
  by (simp add: effectCleanup_def cleanupRelease_def stopTracks_def Let_def split: option.splits)

text \<open>Every run of the effect's body calls the loader: four fetches more, one load more pending.\<close>

lemma frame_effectBody:
  "loadingModels (effectBody s) \<and> error (effectBody s) = error s
   \<and> isRecording (effectBody s) = isRecording s \<and> cameraOn (effectBody s) = cameraOn s
   \<and> modelFetches (effectBody s) = modelFetches s + 4
   \<and> pendingLoads (effectBody s) = pendingLoads s + 1
   \<and> effectDeps (effectBody s) = effectDeps s \<and> timers (effectBody s) = timers s
   \<and> videoBlobUrl (effectBody s) = videoBlobUrl s"
  by (simp add: effectBody_def loadModels_def startVideo_def cameraOffBranch_def stopTracks_def
      Let_def split: option.splits)

lemma deps_render: "deps (render s) = deps s"
  by (simp add: deps_def frame_render)

lemma commit_stable: "effectDeps s = Some (deps s) \<Longrightarrow> commit s = render s"
  by (simp add: commit_def Let_def deps_render frame_render split: prod.splits)

lemma commit_runs:
  assumes "effectDeps s \<noteq> Some (deps s)"
  shows "loadingModels (commit s) \<and> error (commit s) = error s
   \<and> isRecording (commit s) = isRecording s \<and> cameraOn (commit s) = cameraOn s
   \<and> modelFetches (commit s) = modelFetches s + 4
   \<and> pendingLoads (commit s) = pendingLoads s + 1
   \<and> effectDeps (commit s) = Some (deps s) \<and> timers (commit s) = timers s
   \<and> videoBlobUrl (commit s) = videoBlobUrl s"
proof (cases "effectDeps s")
  case None
  then show ?thesis
    by (simp add: commit_def Let_def deps_render frame_render frame_effectBody)
next
  case (Some d)
  obtain lm err w cam where d: "d = (lm, err, w, cam)" by (cases d) auto
  with Some assms have ne: "(lm, err, w, cam) \<noteq> deps s" by simp
  from Some d ne show ?thesis
    by (simp add: commit_def Let_def deps_render frame_render frame_effectBody frame_effectCleanup)
qed

lemma timers_commit: "timers (commit s) = timers s"
  by (cases "effectDeps s = Some (deps s)") (simp_all add: commit_stable commit_runs frame_render)

lemma timers_settle: "timers (settle s) = timers s"
  by (simp add: settle_def timers_commit)

lemma url_commit: "videoBlobUrl (commit s) = videoBlobUrl s"
  by (cases "effectDeps s = Some (deps s)") (simp_all add: commit_stable commit_runs frame_render)

lemma url_settle: "videoBlobUrl (settle s) = videoBlobUrl s"
  by (simp add: settle_def url_commit)


text \<open>After the two renders the effect has run with the state as it is: no third render runs it.\<close>

lemma settle_settled: "effectDeps (settle s) = Some (deps (settle s))"
proof (cases "effectDeps s = Some (deps s)")
  case True
  then have "effectDeps (render s) = Some (deps (render s))"
    by (simp add: frame_render deps_render)
  with True show ?thesis
    by (simp add: settle_def commit_stable frame_render deps_render)
next
  case False
  note c1 = commit_runs [OF False]
  show ?thesis
  proof (cases "loadingModels s")
    case True
    with c1 have st: "effectDeps (commit s) = Some (deps (commit s))" by (simp add: deps_def)
    then show ?thesis
      by (simp add: settle_def commit_stable frame_render deps_render)
  next
    case False
    with c1 have ne: "effectDeps (commit s) \<noteq> Some (deps (commit s))" by (auto simp: deps_def)
    from commit_runs [OF ne] c1 show ?thesis by (simp add: settle_def deps_def)
  qed
qed

text \<open>
  The page of the examples is the mounted component after the models loaded, the camera
  was granted, the metadata loaded and the second load completed, as rendered and before
  the effect of that render.
\<close>

lemma streamingPage_reached:
  fixes s :: home_page
  defines "s \<equiv> render (handle ModelsResolved
      (run [ModelsResolved, CameraGranted [0, 1], LoadedMetadata] (mount Map.empty 4)))"
  shows "cameraOn s = cameraOn streamingPage"
    and "videoRef s = videoRef streamingPage"
    and "canvasRef s = canvasRef streamingPage"
    and "mediaRecorderRef s = mediaRecorderRef streamingPage"
    and "recordedChunks s = recordedChunks streamingPage"
    and "isRecording s = isRecording streamingPage"
    and "videoBlobUrl s = videoBlobUrl streamingPage"
    and "loadingModels s = loadingModels streamingPage"
    and "error s = error streamingPage"
    and "localStorage s ''recordedVideo'' = localStorage streamingPage ''recordedVideo''"
    and "storageQuota s = storageQuota streamingPage"
    and "objectURLs s = objectURLs streamingPage"
    and "pendingReads s = pendingReads streamingPage"
    and "downloads s = downloads streamingPage"
    and "stoppedTracks s = stoppedTracks streamingPage"
    and "timers s = timers streamingPage"
    and "nextTimer s = nextTimer streamingPage"
    and "inFlight s = inFlight streamingPage"
    and "overlayDraws s = overlayDraws streamingPage"
    and "modelFetches s = modelFetches streamingPage"
    and "pendingLoads s = pendingLoads streamingPage"
    and "pendingAcquires s = pendingAcquires streamingPage"
    and "effectDeps s = effectDeps streamingPage"
  unfolding s_def by code_simp+

section \<open>Closing the camera\<close>

text \<open>
  On a rendered page the camera-off branch of the effect does nothing: with the camera
  on its last condition fails, and with the camera off there is no video element. With
  the camera off the release of the cleanup does nothing either.
\<close>

lemma cameraOffBranch_render: "cameraOffBranch (render s) = render s"
  by (simp add: cameraOffBranch_def render_def split: option.splits)

lemma cleanupRelease_render_off: "\<not> cameraOn s \<Longrightarrow> cleanupRelease (render s) = render s"
  by (simp add: cleanupRelease_def render_def)

lemma tracks_commit_off:
  assumes "\<not> cameraOn s"
  shows "stoppedTracks (commit s) = stoppedTracks s \<and> videoRef (commit s) = None"
proof -
  from assms have r: "videoRef (render s) = None" "stoppedTracks (render s) = stoppedTracks s"
      "\<not> cameraOn (render s)"
    by (simp_all add: render_def)
  have c: "stoppedTracks (effectCleanup w (render s)) = stoppedTracks s
      \<and> videoRef (effectCleanup w (render s)) = None
      \<and> \<not> cameraOn (effectCleanup w (render s))" for w
    using r by (simp add: effectCleanup_def cleanupRelease_def Let_def split: option.splits)
  have b: "stoppedTracks (effectBody s') = stoppedTracks s' \<and> videoRef (effectBody s') = None"
    if "videoRef s' = None" "\<not> cameraOn s'" for s'
    using that by (simp add: effectBody_def loadModels_def cameraOffBranch_def Let_def)
  from r c b [of "render s"] b [of "effectCleanup w (render s)" for w] show ?thesis
    by (simp add: commit_def Let_def split: option.splits prod.splits)
qed

text \<open>
  A click on Close Camera, with the renders and effects it causes, stops no track: the
  video element is gone and the stream it played is as it was.
\<close>

lemma close_camera_stops_no_track:
  assumes "cameraOn s"
  shows "stoppedTracks (step ClickToggleCamera s) = stoppedTracks s
       \<and> videoRef (step ClickToggleCamera s) = None"
proof -
  let ?s1 = "handle ClickToggleCamera s"
  from assms have off: "\<not> cameraOn ?s1" and t: "stoppedTracks ?s1 = stoppedTracks s" by simp_all
  note c1 = tracks_commit_off [OF off]
  have "cameraOn (commit ?s1) = cameraOn ?s1"
    by (cases "effectDeps ?s1 = Some (deps ?s1)")
      (simp_all add: commit_stable commit_runs frame_render)
  with off have off2: "\<not> cameraOn (commit ?s1)" by simp
  from tracks_commit_off [OF off2] c1 t show ?thesis by (simp add: step_def settle_def)
qed

text \<open>
  C8, where the code fails it. The component is mounted, the models load, the camera is
  granted and the metadata loads: the camera is on and the video plays the stream of
  tracks 0 and 1. The user clicks Close Camera, the only disable there is. The camera
  flag is off and the video element is gone, and no error is set, but neither track has
  been stopped: the capture source is not released. When the effect runs again with the
  camera off (a load of the models completes), the tracks are still not stopped.
\<close>

theorem C8_close_camera_releases_nothing:
  "cameraOn (run [ModelsResolved, CameraGranted [0, 1], LoadedMetadata] (mount Map.empty 4))
   \<and> \<not> noStream (run [ModelsResolved, CameraGranted [0, 1], LoadedMetadata] (mount Map.empty 4))
   \<and> stoppedTracks (run [ModelsResolved, CameraGranted [0, 1], LoadedMetadata]
        (mount Map.empty 4)) = {}
   \<and> \<not> cameraOn (run [ModelsResolved, CameraGranted [0, 1], LoadedMetadata, ClickToggleCamera]
        (mount Map.empty 4))
   \<and> videoRef (run [ModelsResolved, CameraGranted [0, 1], LoadedMetadata, ClickToggleCamera]
        (mount Map.empty 4)) = None
   \<and> error (run [ModelsResolved, CameraGranted [0, 1], LoadedMetadata, ClickToggleCamera]
        (mount Map.empty 4)) = None
   \<and> stoppedTracks (run [ModelsResolved, CameraGranted [0, 1], LoadedMetadata, ClickToggleCamera]
        (mount Map.empty 4)) = {}
   \<and> stoppedTracks (run [ModelsResolved, CameraGranted [0, 1], LoadedMetadata, ClickToggleCamera,
        ModelsResolved] (mount Map.empty 4)) = {}"
  by code_simp

section \<open>No artifact during a recording\<close>

lemma url_startFaceDetection: "videoBlobUrl (startFaceDetection s) = videoBlobUrl s"
  by (simp add: startFaceDetection_def setInterval_def split: option.splits)

lemma url_onLoadedMetadata: "videoBlobUrl (onLoadedMetadata h s) = videoBlobUrl s"
  by (simp add: onLoadedMetadata_def Let_def url_startFaceDetection split: option.splits)

lemma url_startRecording: "videoBlobUrl s = None \<Longrightarrow> videoBlobUrl (startRecording outcome s) = None"
  by (simp add: startRecording_def Let_def split: option.splits encoder_outcome.splits)

text \<open>Only the encoder's stop event gives \<^verbatim>\<open>videoBlobUrl\<close> a value.\<close>

lemma url_handle:
  "e \<noteq> RecorderStopped \<Longrightarrow> videoBlobUrl s = None \<Longrightarrow> videoBlobUrl (handle e s) = None"
  by (cases e)
    (simp_all add: loadModelsResolved_def loadModelsRejected_def getUserMediaResolved_def
      getUserMediaRejected_def url_onLoadedMetadata intervalCallback_def detectionResolved_def
      handleDataAvailable_def readerOnLoadEnd_def setItem_def url_startRecording
      stopRecording_def clickDownload_def downloadVideo_def Let_def
      split: option.splits list.splits)

lemma url_step:
  "e \<noteq> RecorderStopped \<Longrightarrow> videoBlobUrl s = None \<Longrightarrow> videoBlobUrl (step e s) = None"
  by (simp add: step_def url_settle url_handle)

lemma url_run:
  "RecorderStopped \<notin> set es \<Longrightarrow> videoBlobUrl s = None \<Longrightarrow> videoBlobUrl (run es s) = None"
proof (induction es arbitrary: s)
  case Nil
  then show ?case by simp
next
  case (Cons e es)
  from Cons.prems have "e \<noteq> RecorderStopped" and "RecorderStopped \<notin> set es" by auto
  with Cons.prems(2) Cons.IH [of "step e s"] show ?case by (simp add: url_step)
qed

text \<open>
  C9. A start that succeeds leaves no artifact reference and no chunk, and binds the
  encoder; the clearing comes before the encoder, for it is done also when the
  constructor throws. From then on, whatever events come before the encoder's stop event
  (the finalize), there is no artifact reference: \<^verbatim>\<open>downloadVideo\<close> sets its error
  and downloads nothing, and the Download button is disabled.
\<close>

theorem C9_no_artifact_while_recording:
  assumes "videoRef s = Some video" and "srcObject video = Some stream"
    and "RecorderStopped \<notin> set es"
  shows "videoBlobUrl (startRecording EncoderOk s) = None
       \<and> recordedChunks (startRecording EncoderOk s) = []
       \<and> isRecording (startRecording EncoderOk s)
       \<and> mediaRecorderRef (startRecording EncoderOk s)
           = Some \<lparr>recorderStream = stream, recorderState = Recording, handlersBound = True\<rparr>
       \<and> videoBlobUrl (startRecording ConstructorThrows s) = None
       \<and> recordedChunks (startRecording ConstructorThrows s) = []
       \<and> mediaRecorderRef (startRecording ConstructorThrows s) = mediaRecorderRef s
       \<and> videoBlobUrl (run es (startRecording EncoderOk s)) = None
       \<and> artifact (run es (startRecording EncoderOk s)) = None
       \<and> downloadVideo now (run es (startRecording EncoderOk s))
           = (run es (startRecording EncoderOk s))\<lparr>error := Some ''No video recorded to download.''\<rparr>
       \<and> clickDownload now (run es (startRecording EncoderOk s)) = run es (startRecording EncoderOk s)"
proof -
  have start: "videoBlobUrl (startRecording EncoderOk s) = None"
    using assms(1,2) by (simp add: startRecording_def)
  from url_run [OF assms(3) start]
  have during: "videoBlobUrl (run es (startRecording EncoderOk s)) = None" .
  from during have "artifact (run es (startRecording EncoderOk s)) = None"
    by (simp add: artifact_def)
  moreover from during
  have "downloadVideo now (run es (startRecording EncoderOk s))
      = (run es (startRecording EncoderOk s))\<lparr>error := Some ''No video recorded to download.''\<rparr>"
    by (simp add: downloadVideo_def)
  moreover from during
  have "clickDownload now (run es (startRecording EncoderOk s)) = run es (startRecording EncoderOk s)"
    by (simp add: clickDownload_def downloadDisabled_def)
  moreover have "recordedChunks (startRecording EncoderOk s) = []
      \<and> isRecording (startRecording EncoderOk s)
      \<and> mediaRecorderRef (startRecording EncoderOk s)
           = Some \<lparr>recorderStream = stream, recorderState = Recording, handlersBound = True\<rparr>
      \<and> videoBlobUrl (startRecording ConstructorThrows s) = None
      \<and> recordedChunks (startRecording ConstructorThrows s) = []
      \<and> mediaRecorderRef (startRecording ConstructorThrows s) = mediaRecorderRef s"
    using assms(1,2) by (simp add: startRecording_def)
  ultimately show ?thesis using start during by simp
qed

lemma recordedPage_video: "videoRef recordedPage = Some playingVideo"
  by (simp add: recordedPage_def handleStop_def createObjectURL_def Let_def
      handleDataAvailable_def startRecording_def streamingPage_def playingVideo_def)

theorem C9_witness:
  "videoBlobUrl recordedPage = Some (ObjectURL 0)
   \<and> videoBlobUrl (startRecording EncoderOk recordedPage) = None
   \<and> videoBlobUrl (run [DataAvailable ''a'', ClickDownload 5, ClickStop, ModelsResolved]
        (startRecording EncoderOk recordedPage)) = None
   \<and> error (downloadVideo 5 (run [DataAvailable ''a'', ClickDownload 5, ClickStop, ModelsResolved]
        (startRecording EncoderOk recordedPage))) = Some ''No video recorded to download.''"
proof -
  have src: "srcObject playingVideo = Some [0, 1]" by (simp add: playingVideo_def)
  have es: "RecorderStopped \<notin> set [DataAvailable ''a'', ClickDownload 5, ClickStop, ModelsResolved]"
    by simp
  note c = C9_no_artifact_while_recording [OF recordedPage_video src es, of 5]
  from c have "error (downloadVideo 5 (run [DataAvailable ''a'', ClickDownload 5, ClickStop, ModelsResolved]
        (startRecording EncoderOk recordedPage))) = Some ''No video recorded to download.''"
    by simp
  with c recordedPage_url show ?thesis by blast
qed

section \<open>A recording and an artifact never go together\<close>

lemma rec_commit: "isRecording (commit s) = isRecording s"
  by (cases "effectDeps s = Some (deps s)") (simp_all add: commit_stable commit_runs frame_render)

lemma rec_settle: "isRecording (settle s) = isRecording s"
  by (simp add: settle_def rec_commit)

lemma rec_startFaceDetection: "isRecording (startFaceDetection s) = isRecording s"
  by (simp add: startFaceDetection_def setInterval_def split: option.splits)

lemma rec_onLoadedMetadata: "isRecording (onLoadedMetadata h s) = isRecording s"
  by (simp add: onLoadedMetadata_def Let_def rec_startFaceDetection split: option.splits)

lemma inv_handle:
  assumes "isRecording s \<longrightarrow> videoBlobUrl s = None"
  shows "isRecording (handle e s) \<longrightarrow> videoBlobUrl (handle e s) = None"
proof (cases e)
  case (ClickStart outcome)
  with assms show ?thesis
    by (auto simp: startRecording_def Let_def split: option.splits encoder_outcome.splits)
next
  case RecorderStopped
  then show ?thesis
    using assms by (auto simp: handleStop_def createObjectURL_def Let_def split: option.splits)
qed (insert assms, auto simp: loadModelsResolved_def loadModelsRejected_def
      getUserMediaResolved_def getUserMediaRejected_def url_onLoadedMetadata rec_onLoadedMetadata
      intervalCallback_def detectionResolved_def handleDataAvailable_def readerOnLoadEnd_def
      setItem_def stopRecording_def clickDownload_def downloadVideo_def Let_def
      split: option.splits list.splits)

lemma inv_step:
  "isRecording s \<longrightarrow> videoBlobUrl s = None \<Longrightarrow>
   isRecording (step e s) \<longrightarrow> videoBlobUrl (step e s) = None"
  using inv_handle [of s e] by (simp add: step_def rec_settle url_settle)

lemma inv_run:
  "isRecording s \<longrightarrow> videoBlobUrl s = None \<Longrightarrow>
   isRecording (run es s) \<longrightarrow> videoBlobUrl (run es s) = None"
proof (induction es arbitrary: s)
  case Nil
  then show ?case by simp
next
  case (Cons e es)
  from Cons.IH [OF inv_step [OF Cons.prems]] show ?case by simp
qed

lemma inv_mount: "\<not> isRecording (mount storage quota)"
  by (simp add: mount_def rec_settle rec_commit restoreEffect_def initialPage_def split: option.splits)

text \<open>
  Whatever happens to the mounted component, there is no artifact reference while a
  recording runs: \<^verbatim>\<open>downloadVideo\<close> itself, and not only the button that calls
  it, downloads outside recordings only.
\<close>

lemma recording_has_no_artifact:
  "isRecording (run es (mount storage quota)) \<longrightarrow> videoBlobUrl (run es (mount storage quota)) = None"
  by (rule inv_run) (simp add: inv_mount)

section \<open>Ticks and detections in flight\<close>




section \<open>The timer is never cancelled\<close>

lemma timers_startFaceDetection: "set (timers s) \<subseteq> set (timers (startFaceDetection s))"
  by (auto simp: startFaceDetection_def setInterval_def split: option.splits)

lemma timers_onLoadedMetadata: "set (timers s) \<subseteq> set (timers (onLoadedMetadata h s))"
proof -
  let ?s1 = "case videoRef s of None \<Rightarrow> s
    | Some video \<Rightarrow> s\<lparr>videoRef := Some (video\<lparr>paused := False\<rparr>)\<rparr>"
  have t: "timers ?s1 = timers s" by (simp split: option.splits)
  have "set (timers ?s1) \<subseteq> set (timers (startFaceDetection ?s1))"
    by (rule timers_startFaceDetection)
  then have "set (timers s) \<subseteq> set (timers (startFaceDetection ?s1))"
    by (simp only: t)
  with t show ?thesis by (simp add: onLoadedMetadata_def Let_def)
qed

lemma timers_handle: "set (timers s) \<subseteq> set (timers (handle e s))"
proof (cases e)
  case LoadedMetadata
  then show ?thesis
    using timers_onLoadedMetadata by (auto split: option.splits)
next
  case (ClickStart outcome)
  then show ?thesis
    by (auto simp: startRecording_def Let_def split: option.splits encoder_outcome.splits)
qed (auto simp: loadModelsResolved_def loadModelsRejected_def getUserMediaResolved_def
      getUserMediaRejected_def intervalCallback_def detectionResolved_def
      handleDataAvailable_def handleStop_def createObjectURL_def readerOnLoadEnd_def setItem_def
      stopRecording_def clickDownload_def downloadVideo_def Let_def
      split: option.splits list.splits)

lemma timers_step: "set (timers s) \<subseteq> set (timers (step e s))"
  by (simp add: step_def timers_settle timers_handle)

text \<open>
  No event, and no render or effect after it, takes a timer out of the browser's table:
  a timer that runs keeps running, whatever becomes of the camera, the models, the error
  or the video element.
\<close>

theorem timers_never_cancelled: "set (timers s) \<subseteq> set (timers (run es s))"
proof (induction es arbitrary: s)
  case Nil
  show ?case by simp
next
  case (Cons e es)
  have "set (timers s) \<subseteq> set (timers (step e s))" by (rule timers_step)
  also have "\<dots> \<subseteq> set (timers (run es (step e s)))" by (rule Cons.IH)
  finally show ?case by simp
qed

text \<open>
  C2, where the code fails it. The component is mounted, the models load, the camera is
  granted and the video's metadata loads: timer 0 runs. Then the second load of the
  models completes; the effect's cleanup stops tracks 0 and 1 and detaches the stream,
  and the models are loading again. Timer 0 is still in the table. When the camera is
  granted again and the metadata loads, a second timer runs beside the first.
\<close>

theorem C2_timer_outlives_source:
  "timers (run [ModelsResolved, CameraGranted [0, 1], LoadedMetadata] (mount Map.empty 4)) = [0]
   \<and> \<not> noStream (run [ModelsResolved, CameraGranted [0, 1], LoadedMetadata] (mount Map.empty 4))
   \<and> noStream (run [ModelsResolved, CameraGranted [0, 1], LoadedMetadata, ModelsResolved]
        (mount Map.empty 4))
   \<and> stoppedTracks (run [ModelsResolved, CameraGranted [0, 1], LoadedMetadata, ModelsResolved]
        (mount Map.empty 4)) = {0, 1}
   \<and> loadingModels (run [ModelsResolved, CameraGranted [0, 1], LoadedMetadata, ModelsResolved]
        (mount Map.empty 4))
   \<and> timers (run [ModelsResolved, CameraGranted [0, 1], LoadedMetadata, ModelsResolved]
        (mount Map.empty 4)) = [0]
   \<and> timers (run [ModelsResolved, CameraGranted [0, 1], LoadedMetadata, ModelsResolved,
        CameraGranted [2, 3], LoadedMetadata] (mount Map.empty 4)) = [0, 1]"
  by code_simp

section \<open>Loads of the models\<close>






end
